theory Spec2Isabelle
  imports Complex_Main "HOL-Library.Sublist"
begin

section \<open>The PDF watcher: classification and metadata store\<close>

text \<open>
  A shallow embedding of \<^verbatim>\<open>src/pdf_watcher.py\<close>: the region text accessor, the two
  classifiers, the entry builder, the metadata store with its index file, the event
  handler and the startup pass. Python strings are character lists; the library calls
  the program makes on strings and paths (\<^verbatim>\<open>in\<close>, \<^verbatim>\<open>strip\<close>, \<^verbatim>\<open>lower\<close>,
  \<^verbatim>\<open>Path.name\<close>, \<^verbatim>\<open>Path.stem\<close>, \<^verbatim>\<open>Path.suffix\<close>, \<^verbatim>\<open>Path.parent\<close>) are written out.
\<close>

subsection \<open>Strings\<close>

text \<open>\<^verbatim>\<open>s in t\<close> on strings: \<open>s\<close> occurs in \<open>t\<close> as a contiguous run of characters.\<close>

fun str_in :: "string \<Rightarrow> string \<Rightarrow> bool" where
  "str_in s [] = (s = [])"
| "str_in s (c # t) = (prefix s (c # t) \<or> str_in s t)"

text \<open>\<^verbatim>\<open>str.isspace\<close> for one character, on the code points below 256.\<close>

definition py_isspace :: "char \<Rightarrow> bool" where
  "py_isspace c =
     (let n = (of_char c :: nat)
      in (9 \<le> n \<and> n \<le> 13) \<or> (28 \<le> n \<and> n \<le> 32) \<or> n = 133 \<or> n = 160)"

text \<open>\<^verbatim>\<open>str.strip()\<close>: leading and trailing whitespace removed.\<close>

definition strip :: "string \<Rightarrow> string" where
  "strip s = rev (dropWhile py_isspace (rev (dropWhile py_isspace s)))"

text \<open>\<^verbatim>\<open>str.lower()\<close>, on the code points below 256.\<close>

definition lower_char :: "char \<Rightarrow> char" where
  "lower_char c =
     (let n = (of_char c :: nat)
      in if (65 \<le> n \<and> n \<le> 90) \<or> (192 \<le> n \<and> n \<le> 222 \<and> n \<noteq> 215)
         then char_of (n + 32) else c)"

definition lower :: "string \<Rightarrow> string" where
  "lower s = map lower_char s"

text \<open>\<^verbatim>\<open>str.rfind(c)\<close>: the highest index of \<open>c\<close>, or \<open>-1\<close>.\<close>

fun rfind :: "char \<Rightarrow> string \<Rightarrow> int" where
  "rfind c [] = -1"
| "rfind c (x # xs) =
     (let r = rfind c xs
      in if r \<noteq> -1 then r + 1 else if x = c then 0 else -1)"

text \<open>Truthiness of an optional string: \<^verbatim>\<open>None\<close> and \<^verbatim>\<open>""\<close> are falsy.\<close>

fun truthy :: "string option \<Rightarrow> bool" where
  "truthy None = False"
| "truthy (Some s) = (s \<noteq> [])"

text \<open>\<^verbatim>\<open>d.get(key, default)\<close> on a key that may be missing.\<close>

fun get_default :: "'a \<Rightarrow> 'a option \<Rightarrow> 'a" where
  "get_default d None = d"
| "get_default d (Some v) = v"

text \<open>\<^verbatim>\<open>xs[i]\<close> on a list: a negative index counts from the end, out of range raises.\<close>

definition py_index :: "'a list \<Rightarrow> int \<Rightarrow> 'a option" where
  "py_index xs i =
     (if 0 \<le> i \<and> i < int (length xs) then Some (xs ! nat i)
      else if i < 0 \<and> - int (length xs) \<le> i then Some (xs ! nat (int (length xs) + i))
      else None)"

subsection \<open>Paths\<close>

text \<open>
  A \<^verbatim>\<open>pathlib.Path\<close> in parsed form: the anchor (\<^verbatim>\<open>"/"\<close> for an absolute path,
  empty for a relative one) and the components. The path strings the program passes
  around (\<^verbatim>\<open>pdf_path\<close>, \<^verbatim>\<open>event.src_path\<close>) are held in this form as well, so
  \<^verbatim>\<open>Path(s)\<close> and \<^verbatim>\<open>str(p)\<close> do not appear.
\<close>

datatype path = Path (anchor: string) (parts: "string list")

definition path_name :: "path \<Rightarrow> string" where
  "path_name p = (case parts p of [] \<Rightarrow> [] | _ # _ \<Rightarrow> last (parts p))"

definition path_parent :: "path \<Rightarrow> path" where
  "path_parent p = Path (anchor p) (butlast (parts p))"

definition path_join :: "path \<Rightarrow> string \<Rightarrow> path" where
  "path_join d n = Path (anchor d) (parts d @ [n])"

text \<open>
  \<^verbatim>\<open>suffix\<close> and \<^verbatim>\<open>stem\<close> split the name at its last dot, unless that dot is the
  first or the last character of the name.
\<close>

definition name_suffix :: "string \<Rightarrow> string" where
  "name_suffix n =
     (let i = rfind CHR ''.'' n
      in if 0 < i \<and> i < int (length n) - 1 then drop (nat i) n else [])"

definition name_stem :: "string \<Rightarrow> string" where
  "name_stem n =
     (let i = rfind CHR ''.'' n
      in if 0 < i \<and> i < int (length n) - 1 then take (nat i) n else n)"

definition path_suffix :: "path \<Rightarrow> string" where
  "path_suffix p = name_suffix (path_name p)"

definition path_stem :: "path \<Rightarrow> string" where
  "path_stem p = name_stem (path_name p)"

subsection \<open>Files and PDF documents\<close>

datatype error = FileError | ExtractError

type_synonym bbox = "rat \<times> rat \<times> rat \<times> rat"

text \<open>
  A page as \<^verbatim>\<open>pdfplumber\<close> presents it: \<open>crop_text b t\<close> is the outcome of
  \<^verbatim>\<open>page.crop(b).extract_text(x_tolerance=t)\<close> and \<open>page_text t\<close> that of
  \<^verbatim>\<open>page.extract_text(x_tolerance=t)\<close>; either raises, or returns \<^verbatim>\<open>None\<close> or a
  string.
\<close>

record page =
  crop_text :: "bbox \<Rightarrow> int \<Rightarrow> error + string option"
  page_text :: "int \<Rightarrow> error + string option"

text \<open>
  A regular file: its bytes, and the pages \<^verbatim>\<open>pdfplumber.open\<close> finds in it (\<open>None\<close>
  when opening it as a PDF raises).
\<close>

record pdf_file =
  content :: string
  pdf_pages :: "page list option"

datatype node = Directory | RegularFile pdf_file

type_synonym filesystem = "path \<Rightarrow> node option"

text \<open>\<^verbatim>\<open>pdfplumber.open(pdf_path)\<close>, then \<^verbatim>\<open>pdf.pages\<close>.\<close>

definition open_pdf :: "filesystem \<Rightarrow> path \<Rightarrow> error + page list" where
  "open_pdf fs p =
     (case fs p of
        Some (RegularFile f) \<Rightarrow>
          (case pdf_pages f of None \<Rightarrow> Inl ExtractError | Some pgs \<Rightarrow> Inr pgs)
      | _ \<Rightarrow> Inl FileError)"

subsection \<open>Configuration\<close>

text \<open>
  One element of \<^verbatim>\<open>companies.json\<close>. Every key is read with \<^verbatim>\<open>.get\<close>, so each
  may be missing; \<^verbatim>\<open>insurance_types\<close> is a dictionary, read in key order. The fields
  of \<open>coord\<close> are the keys \<^verbatim>\<open>x0\<close>, \<^verbatim>\<open>y0\<close>, \<^verbatim>\<open>x1\<close>, \<^verbatim>\<open>y1\<close> and \<^verbatim>\<open>page\<close>, those of
  \<open>company_config\<close> the keys \<^verbatim>\<open>company\<close>, \<^verbatim>\<open>coordinates\<close> and \<^verbatim>\<open>insurance_types\<close>.
\<close>

record coord =
  c_x0 :: "rat option"
  c_y0 :: "rat option"
  c_x1 :: "rat option"
  c_y1 :: "rat option"
  c_page :: "int option"

record company_config =
  cc_company :: "string option"
  cc_coordinates :: "coord list option"
  cc_insurance_types :: "(string \<times> string list) list option"

record extractor =
  companies_config :: "company_config list"
  x_tolerance :: int

subsection \<open>PDFMetadataExtractor\<close>

text \<open>
  \<^verbatim>\<open>compute_file_hash\<close>: the digest of the file's bytes, read in blocks of 4096; the
  digest function is a parameter. Opening a missing file or a directory raises.
\<close>

definition compute_file_hash :: "(string \<Rightarrow> string) \<Rightarrow> filesystem \<Rightarrow> path \<Rightarrow> error + string" where
  "compute_file_hash sha256 fs file_path =
     (case fs file_path of
        Some (RegularFile f) \<Rightarrow> Inr (sha256 (content f))
      | _ \<Rightarrow> Inl FileError)"

text \<open>
  \<^verbatim>\<open>extract_text_from_region\<close>: \<open>None\<close> when the page does not exist or when anything
  raises, otherwise the stripped text of the cropped page.
\<close>

definition extract_text_from_region ::
  "filesystem \<Rightarrow> path \<Rightarrow> rat \<Rightarrow> rat \<Rightarrow> rat \<Rightarrow> rat \<Rightarrow> int \<Rightarrow> int \<Rightarrow> string option" where
  "extract_text_from_region fs pdf_path x1 y1 x2 y2 page_num x_tol =
     (case open_pdf fs pdf_path of
        Inl e \<Rightarrow> None
      | Inr pgs \<Rightarrow>
          if page_num \<ge> int (length pgs) \<or> page_num < 0 then None
          else (case py_index pgs page_num of
                  None \<Rightarrow> None
                | Some pg \<Rightarrow>
                    (case crop_text pg (x1, y1, x2, y2) x_tol of
                       Inl e \<Rightarrow> None
                     | Inr t \<Rightarrow> Some (strip (get_default [] t)))))"

text \<open>
  \<^verbatim>\<open>extract_full_page_text\<close>: the empty string when the page index is too large or
  when anything raises, otherwise the text of the page.
\<close>

definition extract_full_page_text :: "filesystem \<Rightarrow> path \<Rightarrow> int \<Rightarrow> int \<Rightarrow> string" where
  "extract_full_page_text fs pdf_path page_num x_tol =
     (case open_pdf fs pdf_path of
        Inl e \<Rightarrow> []
      | Inr pgs \<Rightarrow>
          if page_num \<ge> int (length pgs) then []
          else (case py_index pgs page_num of
                  None \<Rightarrow> []
                | Some pg \<Rightarrow>
                    (case page_text pg x_tol of
                       Inl e \<Rightarrow> []
                     | Inr t \<Rightarrow> get_default [] t)))"

text \<open>
  \<^verbatim>\<open>detect_company\<close>. Each call of \<^verbatim>\<open>extract_text_from_region\<close> reads the file, so
  the two loops thread a log of the calls made: the file, the zero-based page index and
  the box, in the order of the calls.
\<close>

type_synonym query = "path \<times> int \<times> bbox"

fun scan_coordinates ::
  "filesystem \<Rightarrow> int \<Rightarrow> path \<Rightarrow> string \<Rightarrow> coord list \<Rightarrow> query list \<Rightarrow> bool \<times> query list" where
  "scan_coordinates fs x_tol pdf_path company_name [] calls = (False, calls)"
| "scan_coordinates fs x_tol pdf_path company_name (coord # rest) calls =
     (let x1 = get_default 0 (c_x0 coord);
          y1 = get_default 0 (c_y0 coord);
          x2 = get_default 0 (c_x1 coord);
          y2 = get_default 0 (c_y1 coord);
          page = get_default 1 (c_page coord) - 1;
          text = extract_text_from_region fs pdf_path x1 y1 x2 y2 page x_tol;
          calls' = calls @ [(pdf_path, page, (x1, y1, x2, y2))]
      in case text of
           None \<Rightarrow> scan_coordinates fs x_tol pdf_path company_name rest calls'
         | Some t \<Rightarrow>
             if str_in company_name t then (True, calls')
             else scan_coordinates fs x_tol pdf_path company_name rest calls')"

fun scan_companies ::
  "filesystem \<Rightarrow> int \<Rightarrow> path \<Rightarrow> company_config list \<Rightarrow> query list \<Rightarrow> string option \<times> query list" where
  "scan_companies fs x_tol pdf_path [] calls = (None, calls)"
| "scan_companies fs x_tol pdf_path (company_config # rest) calls =
     (let company_name = get_default [] (cc_company company_config);
          coordinates = get_default [] (cc_coordinates company_config);
          r = scan_coordinates fs x_tol pdf_path company_name coordinates calls
      in if fst r then (Some company_name, snd r)
         else scan_companies fs x_tol pdf_path rest (snd r))"

definition detect_company_log :: "extractor \<Rightarrow> filesystem \<Rightarrow> path \<Rightarrow> string option \<times> query list" where
  "detect_company_log ex fs pdf_path =
     scan_companies fs (x_tolerance ex) pdf_path (companies_config ex) []"

definition detect_company :: "extractor \<Rightarrow> filesystem \<Rightarrow> path \<Rightarrow> string option" where
  "detect_company ex fs pdf_path = fst (detect_company_log ex fs pdf_path)"

text \<open>\<^verbatim>\<open>detect_insurance_type\<close>: the search for the configuration, and the two loops.\<close>

fun find_config :: "company_config list \<Rightarrow> string \<Rightarrow> company_config option" where
  "find_config [] company_name = None"
| "find_config (config # rest) company_name =
     (if cc_company config = Some company_name then Some config
      else find_config rest company_name)"

fun match_representations :: "string list \<Rightarrow> string \<Rightarrow> bool" where
  "match_representations [] full_text = False"
| "match_representations (text_repr # rest) full_text =
     (if str_in text_repr full_text then True else match_representations rest full_text)"

fun match_types :: "(string \<times> string list) list \<Rightarrow> string \<Rightarrow> string option" where
  "match_types [] full_text = None"
| "match_types ((type_id, text_representations) # rest) full_text =
     (if match_representations text_representations full_text then Some type_id
      else match_types rest full_text)"

definition detect_insurance_type ::
  "extractor \<Rightarrow> filesystem \<Rightarrow> path \<Rightarrow> string option \<Rightarrow> string option" where
  "detect_insurance_type ex fs pdf_path company_name =
     (if \<not> truthy company_name then None
      else (case find_config (companies_config ex) (get_default [] company_name) of
              None \<Rightarrow> None
            | Some company_config \<Rightarrow>
                (let insurance_types = get_default [] (cc_insurance_types company_config);
                     full_text = extract_full_page_text fs pdf_path 0 (x_tolerance ex)
                 in match_types insurance_types full_text)))"

text \<open>\<^verbatim>\<open>extract_metadata\<close>; the exception of \<^verbatim>\<open>compute_file_hash\<close> is not caught here.\<close>

record MetaEntry =
  name :: string
  file_hash :: string
  company :: string
  insurance_type :: string

definition extract_metadata ::
  "(string \<Rightarrow> string) \<Rightarrow> extractor \<Rightarrow> filesystem \<Rightarrow> path \<Rightarrow> error + MetaEntry option" where
  "extract_metadata sha256 ex fs pdf_path =
     (let nm = path_name pdf_path
      in case compute_file_hash sha256 fs pdf_path of
           Inl e \<Rightarrow> Inl e
         | Inr h \<Rightarrow>
             (let c = detect_company ex fs pdf_path;
                  t = detect_insurance_type ex fs pdf_path c
              in if \<not> truthy c \<or> \<not> truthy t then Inr None
                 else Inr (Some \<lparr>name = nm, file_hash = h,
                                 company = get_default [] c,
                                 insurance_type = get_default [] t\<rparr>)))"

subsection \<open>MetaFileManager\<close>

text \<open>
  The dictionary \<^verbatim>\<open>entries\<close> keeps insertion order, which \<^verbatim>\<open>save\<close> writes out: an
  association list. \<open>meta_file\<close> is the content of the index file on disk (\<open>None\<close>: no
  such file), \<open>writable\<close> tells whether opening it for writing succeeds, and
  \<open>save_calls\<close> counts the calls of \<^verbatim>\<open>save\<close>.
\<close>

fun dict_has :: "'k \<Rightarrow> ('k \<times> 'v) list \<Rightarrow> bool" where
  "dict_has k [] = False"
| "dict_has k ((k', v') # rest) = (if k' = k then True else dict_has k rest)"

fun dict_set :: "'k \<Rightarrow> 'v \<Rightarrow> ('k \<times> 'v) list \<Rightarrow> ('k \<times> 'v) list" where
  "dict_set k v [] = [(k, v)]"
| "dict_set k v ((k', v') # rest) =
     (if k' = k then (k', v) # rest else (k', v') # dict_set k v rest)"

fun dict_del :: "'k \<Rightarrow> ('k \<times> 'v) list \<Rightarrow> ('k \<times> 'v) list" where
  "dict_del k [] = []"
| "dict_del k ((k', v') # rest) =
     (if k' = k then rest else (k', v') # dict_del k rest)"

record meta_file_manager =
  entries :: "(string \<times> MetaEntry) list"
  meta_file :: "string option"
  writable :: bool
  save_calls :: nat

definition newline :: string where
  "newline = [CHR 0x0A]"

definition entry_text :: "MetaEntry \<Rightarrow> string" where
  "entry_text entry =
     ''---'' @ newline @ name entry @ newline @ file_hash entry @ newline
       @ company entry @ newline @ insurance_type entry @ newline"

definition serialize :: "(string \<times> MetaEntry) list \<Rightarrow> string" where
  "serialize es = concat (map (\<lambda>kv. entry_text (snd kv)) es)"

text \<open>
  \<^verbatim>\<open>save\<close> rewrites the whole file; when the file cannot be opened the exception is
  caught and the file stays as it was.
\<close>

definition save :: "meta_file_manager \<Rightarrow> meta_file_manager" where
  "save m =
     (if writable m
      then m\<lparr>meta_file := Some (serialize (entries m)), save_calls := Suc (save_calls m)\<rparr>
      else m\<lparr>save_calls := Suc (save_calls m)\<rparr>)"

definition add_or_update :: "MetaEntry \<Rightarrow> bool \<Rightarrow> meta_file_manager \<Rightarrow> meta_file_manager" where
  "add_or_update entry save_immediately m =
     (let m' = m\<lparr>entries := dict_set (name entry) entry (entries m)\<rparr>
      in if save_immediately then save m' else m')"

definition remove :: "string \<Rightarrow> meta_file_manager \<Rightarrow> meta_file_manager" where
  "remove nm m =
     (if dict_has nm (entries m) then save (m\<lparr>entries := dict_del nm (entries m)\<rparr>)
      else m)"

subsection \<open>PDFEventHandler\<close>

record event =
  is_directory :: bool
  src_path :: path

definition is_pdf_in_root :: "path \<Rightarrow> path \<Rightarrow> bool" where
  "is_pdf_in_root watch_directory file_path =
     (if lower (path_suffix file_path) \<noteq> ''.pdf'' then False
      else if path_parent file_path \<noteq> watch_directory then False
      else True)"

text \<open>\<^verbatim>\<open>_process_pdf\<close>: every exception is caught and the store left as it is.\<close>

definition process_pdf ::
  "(string \<Rightarrow> string) \<Rightarrow> extractor \<Rightarrow> filesystem \<Rightarrow> path \<Rightarrow> meta_file_manager \<Rightarrow> meta_file_manager" where
  "process_pdf sha256 ex fs file_path m =
     (case extract_metadata sha256 ex fs file_path of
        Inl e \<Rightarrow> m
      | Inr None \<Rightarrow> m
      | Inr (Some entry) \<Rightarrow> add_or_update entry True m)"

text \<open>
  The handlers; \<open>fs\<close> is the file system as it is when the file is read, after the half
  second the handler sleeps.
\<close>

definition on_created ::
  "(string \<Rightarrow> string) \<Rightarrow> extractor \<Rightarrow> path \<Rightarrow> filesystem \<Rightarrow> event \<Rightarrow> meta_file_manager \<Rightarrow> meta_file_manager" where
  "on_created sha256 ex watch_directory fs ev m =
     (if is_directory ev then m
      else if is_pdf_in_root watch_directory (src_path ev)
      then process_pdf sha256 ex fs (src_path ev) m
      else m)"

definition on_modified ::
  "(string \<Rightarrow> string) \<Rightarrow> extractor \<Rightarrow> path \<Rightarrow> filesystem \<Rightarrow> event \<Rightarrow> meta_file_manager \<Rightarrow> meta_file_manager" where
  "on_modified sha256 ex watch_directory fs ev m =
     (if is_directory ev then m
      else if is_pdf_in_root watch_directory (src_path ev)
      then process_pdf sha256 ex fs (src_path ev) m
      else m)"

definition on_deleted :: "path \<Rightarrow> event \<Rightarrow> meta_file_manager \<Rightarrow> meta_file_manager" where
  "on_deleted watch_directory ev m =
     (if is_directory ev then m
      else (let file_path = src_path ev
            in if lower (path_suffix file_path) = ''.pdf''
                  \<and> path_parent file_path = watch_directory
               then remove (path_stem file_path) m
               else m))"

subsection \<open>The startup pass\<close>

text \<open>
  \<^verbatim>\<open>watch_path.glob("*.pdf")\<close> over the names in the watched directory, in the order the
  directory is scanned: the names that end in \<^verbatim>\<open>.pdf\<close>, compared case-sensitively as on
  a POSIX system, each joined to the directory.
\<close>

definition fnmatch_star_pdf :: "string \<Rightarrow> bool" where
  "fnmatch_star_pdf n = (4 \<le> length n \<and> drop (length n - 4) n = ''.pdf'')"

definition glob_star_pdf :: "path \<Rightarrow> string list \<Rightarrow> path list" where
  "glob_star_pdf watch_path listing = map (path_join watch_path) (filter fnmatch_star_pdf listing)"

fun existing_loop ::
  "(string \<Rightarrow> string) \<Rightarrow> extractor \<Rightarrow> filesystem \<Rightarrow> path list \<Rightarrow> meta_file_manager \<Rightarrow> nat
     \<Rightarrow> meta_file_manager \<times> nat" where
  "existing_loop sha256 ex fs [] m count = (m, count)"
| "existing_loop sha256 ex fs (pdf_file # rest) m count =
     (case extract_metadata sha256 ex fs pdf_file of
        Inl e \<Rightarrow> existing_loop sha256 ex fs rest m count
      | Inr None \<Rightarrow> existing_loop sha256 ex fs rest m count
      | Inr (Some entry) \<Rightarrow>
          existing_loop sha256 ex fs rest (add_or_update entry False m) (count + 1))"

definition process_existing_pdfs ::
  "(string \<Rightarrow> string) \<Rightarrow> extractor \<Rightarrow> filesystem \<Rightarrow> path \<Rightarrow> string list \<Rightarrow> meta_file_manager
     \<Rightarrow> meta_file_manager" where
  "process_existing_pdfs sha256 ex fs watch_directory listing m =
     (let pdf_files = glob_star_pdf watch_directory listing
      in if pdf_files \<noteq> []
         then (let r = existing_loop sha256 ex fs pdf_files m 0
               in if snd r > 0 then save (fst r) else fst r)
         else m)"

section \<open>Notions the properties are stated with\<close>

subsection \<open>Company detection\<close>

text \<open>
  The profile/region combinations in configured order: every profile in order, and within
  a profile its regions in order, each paired with the profile's company name.
\<close>

definition candidates :: "company_config list \<Rightarrow> (string \<times> coord) list" where
  "candidates cfg =
     concat (map (\<lambda>cc. map (Pair (get_default [] (cc_company cc)))
                            (get_default [] (cc_coordinates cc))) cfg)"

text \<open>The accessor query of a region: the file, the region's page minus one, its box.\<close>

definition region_query :: "path \<Rightarrow> coord \<Rightarrow> query" where
  "region_query pdf_path r =
     (pdf_path, get_default 1 (c_page r) - 1,
      (get_default 0 (c_x0 r), get_default 0 (c_y0 r),
       get_default 0 (c_x1 r), get_default 0 (c_y1 r)))"

definition text_at :: "filesystem \<Rightarrow> int \<Rightarrow> query \<Rightarrow> string option" where
  "text_at fs x_tol q =
     (case q of (pdf_path, pg, (xa, ya, xb, yb)) \<Rightarrow>
        extract_text_from_region fs pdf_path xa ya xb yb pg x_tol)"

text \<open>
  A combination matches when the accessor returns a text for its region and the company
  name occurs in that text.
\<close>

definition region_matches :: "filesystem \<Rightarrow> int \<Rightarrow> path \<Rightarrow> string \<times> coord \<Rightarrow> bool" where
  "region_matches fs x_tol pdf_path c =
     (case text_at fs x_tol (region_query pdf_path (snd c)) of
        None \<Rightarrow> False
      | Some t \<Rightarrow> str_in (fst c) t)"

text \<open>The elements of a list up to and including the first that satisfies \<open>M\<close>.\<close>

definition examined :: "('a \<Rightarrow> bool) \<Rightarrow> 'a list \<Rightarrow> 'a list" where
  "examined M cs = take (Suc (length (takeWhile (\<lambda>c. \<not> M c) cs))) cs"

subsection \<open>Insurance-type detection as the specification words it\<close>

text \<open>The text of the first page of the document, empty when there is none to read.\<close>

definition first_page_text :: "filesystem \<Rightarrow> path \<Rightarrow> int \<Rightarrow> string" where
  "first_page_text fs pdf_path x_tol =
     (case open_pdf fs pdf_path of
        Inr (pg # rest) \<Rightarrow> (case page_text pg x_tol of Inr (Some t) \<Rightarrow> t | _ \<Rightarrow> [])
      | _ \<Rightarrow> [])"

text \<open>The first type, in key order, one of whose phrases occurs in the text.\<close>

definition first_type_matching :: "(string \<times> string list) list \<Rightarrow> string \<Rightarrow> string option" where
  "first_type_matching types text =
     map_option fst (find (\<lambda>kv. list_ex (\<lambda>phrase. str_in phrase text) (snd kv)) types)"

text \<open>
  The classifier in the words of the specification: none for no company; otherwise the
  profile of that exact name (none if absent) and the first type of its map with a
  phrase in the first page's text.
\<close>

definition insurance_type_as_claimed ::
  "extractor \<Rightarrow> filesystem \<Rightarrow> path \<Rightarrow> string option \<Rightarrow> string option" where
  "insurance_type_as_claimed ex fs pdf_path company_name =
     (case company_name of
        None \<Rightarrow> None
      | Some nm \<Rightarrow>
          (case find (\<lambda>c. cc_company c = Some nm) (companies_config ex) of
             None \<Rightarrow> None
           | Some profile \<Rightarrow>
               first_type_matching (get_default [] (cc_insurance_types profile))
                 (first_page_text fs pdf_path (x_tolerance ex))))"

subsection \<open>The startup pass\<close>

text \<open>The entries of the files that classify, in the order of the files.\<close>

fun classified ::
  "(string \<Rightarrow> string) \<Rightarrow> extractor \<Rightarrow> filesystem \<Rightarrow> path list \<Rightarrow> MetaEntry list" where
  "classified sha256 ex fs [] = []"
| "classified sha256 ex fs (f # rest) =
     (case extract_metadata sha256 ex fs f of
        Inr (Some entry) \<Rightarrow> entry # classified sha256 ex fs rest
      | _ \<Rightarrow> classified sha256 ex fs rest)"

section \<open>A watched directory used in the examples\<close>

text \<open>
  The directory \<^verbatim>\<open>/inbox\<close> holds two documents of the company Acme, an auto and a home
  policy, a file that is not a PDF, and a text file. The digest function of the examples
  prefixes the bytes with a tag.
\<close>

definition demo_digest :: "string \<Rightarrow> string" where
  "demo_digest bytes = ''sha:'' @ bytes"

definition acme_page :: "string \<Rightarrow> page" where
  "acme_page body =
     \<lparr>crop_text = (\<lambda>b t. if b = (0, 0, 200, 50) then Inr (Some '' Acme Insurance '')
                          else Inr None),
      page_text = (\<lambda>t. Inr (Some body))\<rparr>"

definition demo_dir :: path where
  "demo_dir = Path ''/'' [''inbox'']"

definition foo_pdf :: path where
  "foo_pdf = Path ''/'' [''inbox'', ''foo.pdf'']"

definition bar_pdf :: path where
  "bar_pdf = Path ''/'' [''inbox'', ''bar.pdf'']"

definition junk_pdf :: path where
  "junk_pdf = Path ''/'' [''inbox'', ''junk.pdf'']"

definition demo_fs :: filesystem where
  "demo_fs p =
     (if p = foo_pdf
      then Some (RegularFile \<lparr>content = ''%PDF-foo'',
                               pdf_pages = Some [acme_page ''Auto policy 2024'']\<rparr>)
      else if p = bar_pdf
      then Some (RegularFile \<lparr>content = ''%PDF-bar'',
                               pdf_pages = Some [acme_page ''Home policy 2024'']\<rparr>)
      else if p = junk_pdf
      then Some (RegularFile \<lparr>content = ''junk'', pdf_pages = None\<rparr>)
      else None)"

definition demo_listing :: "string list" where
  "demo_listing = [''foo.pdf'', ''junk.pdf'', ''notes.txt'', ''bar.pdf'']"

definition demo_region :: coord where
  "demo_region =
     \<lparr>c_x0 = Some 0, c_y0 = Some 0, c_x1 = Some 200, c_y1 = Some 50, c_page = Some 1\<rparr>"

definition acme_profile :: company_config where
  "acme_profile =
     \<lparr>cc_company = Some ''Acme'',
      cc_coordinates = Some [demo_region, demo_region\<lparr>c_y1 := Some 80\<rparr>],
      cc_insurance_types =
        Some [(''auto'', [''Car policy'', ''Auto policy'']), (''home'', [''Home policy''])]\<rparr>"

definition zenith_profile :: company_config where
  "zenith_profile =
     \<lparr>cc_company = Some ''Zenith'',
      cc_coordinates = Some [demo_region\<lparr>c_page := Some 2\<rparr>, demo_region],
      cc_insurance_types = Some [(''life'', [''Life policy''])]\<rparr>"

definition demo_ex :: extractor where
  "demo_ex = \<lparr>companies_config = [zenith_profile, acme_profile], x_tolerance = 1\<rparr>"

definition zenith_ex :: extractor where
  "zenith_ex = \<lparr>companies_config = [zenith_profile], x_tolerance = 1\<rparr>"

text \<open>A configuration whose only profile has the empty string as its company name.\<close>

definition blank_ex :: extractor where
  "blank_ex =
     \<lparr>companies_config =
        [\<lparr>cc_company = Some [], cc_coordinates = Some [demo_region],
          cc_insurance_types = Some [(''auto'', [''Auto policy''])]\<rparr>],
      x_tolerance = 1\<rparr>"

definition foo_entry :: MetaEntry where
  "foo_entry =
     \<lparr>name = ''foo.pdf'', file_hash = ''sha:%PDF-foo'', company = ''Acme'',
      insurance_type = ''auto''\<rparr>"

definition bar_entry :: MetaEntry where
  "bar_entry =
     \<lparr>name = ''bar.pdf'', file_hash = ''sha:%PDF-bar'', company = ''Acme'',
      insurance_type = ''home''\<rparr>"

text \<open>The store as \<^verbatim>\<open>MetaFileManager.__init__\<close> leaves it, with no index file on disk.\<close>

definition fresh_store :: meta_file_manager where
  "fresh_store = \<lparr>entries = [], meta_file = None, writable = True, save_calls = 0\<rparr>"

text \<open>The same store when an earlier run has left an index file behind.\<close>

definition stale_store :: meta_file_manager where
  "stale_store =
     \<lparr>entries = [], meta_file = Some (serialize [(''bar.pdf'', bar_entry)]),
      writable = True, save_calls = 0\<rparr>"

definition foo_event :: event where
  "foo_event = \<lparr>is_directory = False, src_path = foo_pdf\<rparr>"

section \<open>Properties\<close>

subsection \<open>Strings and dictionaries\<close>

lemma str_in_sublist: "str_in s t = sublist s t"
  by (induction t) (auto simp: sublist_Cons_right)

lemma dict_set_idem: "dict_set k v (dict_set k v xs) = dict_set k v xs"
  by (induction xs) auto

subsection \<open>Company detection\<close>

lemma examined_Nil: "examined M [] = []"
  by (simp add: examined_def)

lemma examined_Cons: "examined M (c # cs) = (if M c then [c] else c # examined M cs)"
  by (simp add: examined_def)

lemma examined_append:
  "examined M (xs @ ys) = (if list_ex M xs then examined M xs else xs @ examined M ys)"
  by (induction xs) (simp_all add: examined_Nil examined_Cons)

lemma examined_none: "\<not> list_ex M xs \<Longrightarrow> examined M xs = xs"
  by (induction xs) (simp_all add: examined_Nil examined_Cons)

lemma find_append_first:
  "find M (xs @ ys) = (if list_ex M xs then find M xs else find M ys)"
  by (induction xs) simp_all

lemma find_tagged:
  "list_ex M (map (Pair nm) rs) \<Longrightarrow> map_option fst (find M (map (Pair nm) rs)) = Some nm"
  by (induction rs) auto

lemma find_drop_nonmatch: "\<not> M x \<Longrightarrow> find M (xs @ x # ys) = find M (xs @ ys)"
  by (induction xs) simp_all

lemma candidates_append: "candidates (xs @ ys) = candidates xs @ candidates ys"
  by (simp add: candidates_def)

lemma candidates_Cons:
  "candidates (cc # cfg) =
     map (Pair (get_default [] (cc_company cc))) (get_default [] (cc_coordinates cc))
       @ candidates cfg"
  by (simp add: candidates_def)

text \<open>The inner loop: whether a region of the profile matches, and the calls it adds.\<close>

lemma scan_coordinates_char:
  "scan_coordinates fs tol p nm rs calls =
     (list_ex (region_matches fs tol p) (map (Pair nm) rs),
      calls @ map (\<lambda>c. region_query p (snd c))
                (examined (region_matches fs tol p) (map (Pair nm) rs)))"
proof (induction rs arbitrary: calls)
  case Nil
  show ?case by (simp add: examined_Nil)
next
  case (Cons r rs)
  show ?case
    by (simp add: Cons.IH examined_Cons region_matches_def region_query_def text_at_def
        Let_def split: option.split)
qed

lemma scan_companies_char:
  "scan_companies fs tol p cfg calls =
     (map_option fst (find (region_matches fs tol p) (candidates cfg)),
      calls @ map (\<lambda>c. region_query p (snd c))
                (examined (region_matches fs tol p) (candidates cfg)))"
proof (induction cfg arbitrary: calls)
  case Nil
  show ?case by (simp add: candidates_def examined_Nil)
next
  case (Cons cc cfg)
  show ?case
    by (simp add: Cons.IH candidates_Cons scan_coordinates_char examined_append
        find_append_first find_tagged examined_none Let_def)
qed

lemma negative_page_absent:
  "page_num < 0 \<Longrightarrow> extract_text_from_region fs p xa ya xb yb page_num tol = None"
  by (simp add: extract_text_from_region_def split: sum.split)

text \<open>
  C3. \<^verbatim>\<open>detect_company\<close> returns the company of the first profile/region combination,
  in configured order, whose region text contains the company name, and \<open>None\<close> when no
  combination matches; the accessor calls it makes are exactly the queries
  (file, page - 1, box) of the combinations up to and including that first match, in
  order, so a region whose page is absent is passed over and nothing after the match is
  examined.
\<close>

theorem detect_company_first_match:
  "detect_company_log ex fs p =
     (map_option fst
        (find (region_matches fs (x_tolerance ex) p) (candidates (companies_config ex))),
      map (\<lambda>c. region_query p (snd c))
        (examined (region_matches fs (x_tolerance ex) p) (candidates (companies_config ex))))
   \<and> detect_company ex fs p =
       map_option fst
         (find (region_matches fs (x_tolerance ex) p) (candidates (companies_config ex)))"
  by (simp add: detect_company_def detect_company_log_def scan_companies_char)

text \<open>
  C9. A region whose configured page is 0 or negative gives a page index below 0:
  \<^verbatim>\<open>extract_text_from_region\<close> returns \<open>None\<close> for it, whatever the document holds, and
  \<^verbatim>\<open>detect_company\<close> returns what it returns without that region.
\<close>

theorem nonpositive_page_skipped:
  assumes "get_default 1 (c_page r) \<le> 0"
  shows "extract_text_from_region fs p (get_default 0 (c_x0 r)) (get_default 0 (c_y0 r))
           (get_default 0 (c_x1 r)) (get_default 0 (c_y1 r))
           (get_default 1 (c_page r) - 1) tol = None
       \<and> detect_company
           (ex\<lparr>companies_config :=
                 pre @ cc\<lparr>cc_coordinates := Some (rs1 @ r # rs2)\<rparr> # post\<rparr>) fs p
         = detect_company
             (ex\<lparr>companies_config :=
                   pre @ cc\<lparr>cc_coordinates := Some (rs1 @ rs2)\<rparr> # post\<rparr>) fs p"
proof -
  have absent: "extract_text_from_region fs p (get_default 0 (c_x0 r))
      (get_default 0 (c_y0 r)) (get_default 0 (c_x1 r)) (get_default 0 (c_y1 r))
      (get_default 1 (c_page r) - 1) t = None" for t
    using assms by (simp add: negative_page_absent)
  have nomatch: "\<not> region_matches fs (x_tolerance ex) p (nm, r)" for nm
    by (simp add: region_matches_def text_at_def region_query_def absent)
  have "find (region_matches fs (x_tolerance ex) p)
          (candidates (pre @ cc\<lparr>cc_coordinates := Some (rs1 @ r # rs2)\<rparr> # post))
      = find (region_matches fs (x_tolerance ex) p)
          (candidates (pre @ cc\<lparr>cc_coordinates := Some (rs1 @ rs2)\<rparr> # post))"
    using nomatch [of "get_default [] (cc_company cc)"]
      find_drop_nonmatch [of "region_matches fs (x_tolerance ex) p"
        "(get_default [] (cc_company cc), r)"
        "candidates pre @ map (Pair (get_default [] (cc_company cc))) rs1"
        "map (Pair (get_default [] (cc_company cc))) rs2 @ candidates post"]
    by (simp add: candidates_append candidates_Cons)
  then show ?thesis
    by (simp add: absent detect_company_def detect_company_log_def scan_companies_char)
qed

subsection \<open>Evaluating the example directory\<close>

lemma acme_region_text:
  "extract_text_from_region demo_fs foo_pdf 0 0 200 50 0 1 = Some ''Acme Insurance''"
  "extract_text_from_region demo_fs bar_pdf 0 0 200 50 0 1 = Some ''Acme Insurance''"
  "extract_text_from_region demo_fs foo_pdf 0 0 200 50 1 1 = None"
  "extract_text_from_region demo_fs bar_pdf 0 0 200 50 1 1 = None"
  "extract_text_from_region demo_fs junk_pdf xa ya xb yb pg 1 = None"
  by (simp_all add: extract_text_from_region_def open_pdf_def demo_fs_def acme_page_def
      foo_pdf_def bar_pdf_def junk_pdf_def py_index_def strip_def py_isspace_def Let_def)

lemma demo_company_log:
  "detect_company_log demo_ex demo_fs foo_pdf =
     (Some ''Acme'',
      [(foo_pdf, 1, (0, 0, 200, 50)), (foo_pdf, 0, (0, 0, 200, 50)),
       (foo_pdf, 0, (0, 0, 200, 50))])"
  by (simp add: detect_company_log_def demo_ex_def zenith_profile_def acme_profile_def
      demo_region_def acme_region_text Let_def)

lemma demo_company:
  "detect_company demo_ex demo_fs foo_pdf = Some ''Acme''"
  "detect_company demo_ex demo_fs bar_pdf = Some ''Acme''"
  "detect_company demo_ex demo_fs junk_pdf = None"
  "detect_company zenith_ex demo_fs foo_pdf = None"
  by (simp_all add: detect_company_def detect_company_log_def demo_ex_def zenith_ex_def
      zenith_profile_def acme_profile_def demo_region_def acme_region_text Let_def)

lemma demo_page_text:
  "extract_full_page_text demo_fs foo_pdf 0 1 = ''Auto policy 2024''"
  "extract_full_page_text demo_fs bar_pdf 0 1 = ''Home policy 2024''"
  by (simp_all add: extract_full_page_text_def open_pdf_def demo_fs_def acme_page_def
      foo_pdf_def bar_pdf_def py_index_def)

lemma demo_type:
  "detect_insurance_type demo_ex demo_fs foo_pdf (Some ''Acme'') = Some ''auto''"
  "detect_insurance_type demo_ex demo_fs bar_pdf (Some ''Acme'') = Some ''home''"
  "detect_insurance_type ex demo_fs p None = None"
  by (simp_all add: detect_insurance_type_def demo_ex_def zenith_profile_def acme_profile_def
      demo_page_text Let_def)

lemma demo_hash:
  "compute_file_hash demo_digest demo_fs foo_pdf = Inr ''sha:%PDF-foo''"
  "compute_file_hash demo_digest demo_fs bar_pdf = Inr ''sha:%PDF-bar''"
  "compute_file_hash demo_digest demo_fs junk_pdf = Inr ''sha:junk''"
  by (simp_all add: compute_file_hash_def demo_fs_def demo_digest_def foo_pdf_def bar_pdf_def
      junk_pdf_def)

lemma demo_names:
  "path_name foo_pdf = ''foo.pdf''"
  "path_name bar_pdf = ''bar.pdf''"
  by (simp_all add: path_name_def foo_pdf_def bar_pdf_def)

lemma demo_metadata:
  "extract_metadata demo_digest demo_ex demo_fs foo_pdf = Inr (Some foo_entry)"
  "extract_metadata demo_digest demo_ex demo_fs bar_pdf = Inr (Some bar_entry)"
  "extract_metadata demo_digest demo_ex demo_fs junk_pdf = Inr None"
  "extract_metadata demo_digest zenith_ex demo_fs foo_pdf = Inr None"
  by (simp_all add: extract_metadata_def demo_hash demo_company demo_type demo_names
      foo_entry_def bar_entry_def Let_def)

lemma demo_glob: "glob_star_pdf demo_dir demo_listing = [foo_pdf, junk_pdf, bar_pdf]"
  by (simp add: glob_star_pdf_def demo_listing_def fnmatch_star_pdf_def path_join_def
      demo_dir_def foo_pdf_def junk_pdf_def bar_pdf_def)

lemma foo_path:
  "lower (path_suffix foo_pdf) = ''.pdf''"
  "path_stem foo_pdf = ''foo''"
  "path_parent foo_pdf = demo_dir"
  by (simp_all add: path_suffix_def path_stem_def path_name_def name_suffix_def name_stem_def
      lower_def lower_char_def path_parent_def foo_pdf_def demo_dir_def Let_def)

lemma foo_event_fields: "is_directory foo_event = False" "src_path foo_event = foo_pdf"
  by (simp_all add: foo_event_def)

lemma foo_created:
  "on_created demo_digest demo_ex demo_dir demo_fs foo_event fresh_store =
     \<lparr>entries = [(''foo.pdf'', foo_entry)],
      meta_file = Some (serialize [(''foo.pdf'', foo_entry)]),
      writable = True, save_calls = 1\<rparr>"
  by (simp add: on_created_def foo_event_fields is_pdf_in_root_def foo_path process_pdf_def
      demo_metadata add_or_update_def save_def fresh_store_def foo_entry_def Let_def)

lemma foo_serialized:
  "serialize [(''foo.pdf'', foo_entry)] =
     ''---'' @ newline @ ''foo.pdf'' @ newline @ ''sha:%PDF-foo'' @ newline @ ''Acme''
       @ newline @ ''auto'' @ newline"
  by (simp add: serialize_def entry_text_def foo_entry_def)

subsection \<open>The entry builder\<close>

lemma find_none: "\<not> list_ex M xs \<Longrightarrow> find M xs = None"
  by (induction xs) auto

lemma no_region_no_company:
  "\<not> list_ex (region_matches fs (x_tolerance ex) p) (candidates (companies_config ex))
   \<Longrightarrow> detect_company ex fs p = None"
  by (simp add: detect_company_def detect_company_log_def scan_companies_char find_none)

lemma truthy_Some: "truthy x \<Longrightarrow> x = Some (get_default [] x) \<and> get_default [] x \<noteq> []"
  by (cases x) simp_all

lemma entry_name_is_path_name:
  "extract_metadata sha ex fs p = Inr (Some e) \<Longrightarrow> name e = path_name p"
  by (auto simp: extract_metadata_def Let_def split: sum.splits if_splits)

text \<open>
  C1. The entry that \<^verbatim>\<open>extract_metadata\<close> builds for \<^verbatim>\<open>/inbox/foo.pdf\<close> has the name
  \<^verbatim>\<open>foo.pdf\<close>, the file name with its extension, while the file name without its
  extension, by which \<^verbatim>\<open>on_deleted\<close> removes, is \<^verbatim>\<open>foo\<close>.
\<close>

theorem entry_name_keeps_extension:
  "extract_metadata demo_digest demo_ex demo_fs foo_pdf = Inr (Some foo_entry)
   \<and> name foo_entry = ''foo.pdf''
   \<and> path_stem foo_pdf = ''foo''
   \<and> name foo_entry \<noteq> path_stem foo_pdf"
  by (simp add: demo_metadata foo_path foo_entry_def)

theorem entry_name_keeps_extension_witness:
  "compute_file_hash demo_digest demo_fs foo_pdf = Inr ''sha:%PDF-foo''
   \<and> truthy (detect_company demo_ex demo_fs foo_pdf)
   \<and> truthy (detect_insurance_type demo_ex demo_fs foo_pdf
               (detect_company demo_ex demo_fs foo_pdf))
   \<and> name foo_entry = path_name foo_pdf
   \<and> path_name foo_pdf \<noteq> path_stem foo_pdf"
  using entry_name_keeps_extension
  by (simp add: demo_hash demo_company demo_type demo_names)

text \<open>
  C5. \<^verbatim>\<open>extract_metadata\<close> returns an entry only when the detected company and the
  detected insurance type are both present and non-empty, and the entry carries them; for
  a readable file it returns \<open>None\<close> in every other case, in particular whenever no
  configured company name occurs in the text of any configured region.
\<close>

theorem extract_metadata_gate:
  "(extract_metadata sha ex fs p = Inr (Some e) \<longrightarrow>
      detect_company ex fs p = Some (company e) \<and> company e \<noteq> []
      \<and> detect_insurance_type ex fs p (Some (company e)) = Some (insurance_type e)
      \<and> insurance_type e \<noteq> [])
   \<and> (fs p = Some (RegularFile f)
        \<and> \<not> (truthy (detect_company ex fs p)
               \<and> truthy (detect_insurance_type ex fs p (detect_company ex fs p)))
      \<longrightarrow> extract_metadata sha ex fs p = Inr None)
   \<and> (\<not> list_ex (region_matches fs (x_tolerance ex) p) (candidates (companies_config ex))
      \<longrightarrow> extract_metadata sha ex fs p \<noteq> Inr (Some e)
          \<and> (fs p = Some (RegularFile f) \<longrightarrow> extract_metadata sha ex fs p = Inr None))"
proof -
  have 1: "extract_metadata sha ex fs p = Inr (Some e) \<longrightarrow>
      detect_company ex fs p = Some (company e) \<and> company e \<noteq> []
      \<and> detect_insurance_type ex fs p (Some (company e)) = Some (insurance_type e)
      \<and> insurance_type e \<noteq> []"
    using truthy_Some [of "detect_company ex fs p"]
      truthy_Some [of "detect_insurance_type ex fs p (detect_company ex fs p)"]
    by (auto simp: extract_metadata_def Let_def split: sum.splits if_splits)
  have 2: "fs p = Some (RegularFile f)
        \<and> \<not> (truthy (detect_company ex fs p)
               \<and> truthy (detect_insurance_type ex fs p (detect_company ex fs p)))
      \<longrightarrow> extract_metadata sha ex fs p = Inr None"
    by (auto simp: extract_metadata_def compute_file_hash_def Let_def)
  have 3: "\<not> list_ex (region_matches fs (x_tolerance ex) p) (candidates (companies_config ex))
      \<longrightarrow> extract_metadata sha ex fs p \<noteq> Inr (Some e)
          \<and> (fs p = Some (RegularFile f) \<longrightarrow> extract_metadata sha ex fs p = Inr None)"
    using no_region_no_company [of fs ex p]
    by (auto simp: extract_metadata_def compute_file_hash_def Let_def split: sum.splits)
  from 1 2 3 show ?thesis by blast
qed

theorem extract_metadata_gate_witness:
  "extract_metadata demo_digest demo_ex demo_fs foo_pdf = Inr (Some foo_entry)
   \<and> detect_company demo_ex demo_fs foo_pdf = Some ''Acme''
   \<and> detect_insurance_type demo_ex demo_fs foo_pdf (Some ''Acme'') = Some ''auto''
   \<and> demo_fs foo_pdf
       = Some (RegularFile \<lparr>content = ''%PDF-foo'',
                             pdf_pages = Some [acme_page ''Auto policy 2024'']\<rparr>)
   \<and> \<not> list_ex (region_matches demo_fs (x_tolerance zenith_ex) foo_pdf)
          (candidates (companies_config zenith_ex))
   \<and> \<not> (truthy (detect_company zenith_ex demo_fs foo_pdf)
          \<and> truthy (detect_insurance_type zenith_ex demo_fs foo_pdf
                      (detect_company zenith_ex demo_fs foo_pdf)))
   \<and> extract_metadata demo_digest zenith_ex demo_fs foo_pdf = Inr None"
proof -
  have readable: "demo_fs foo_pdf
       = Some (RegularFile \<lparr>content = ''%PDF-foo'',
                             pdf_pages = Some [acme_page ''Auto policy 2024'']\<rparr>)"
    by (simp add: demo_fs_def)
  have nomatch: "\<not> list_ex (region_matches demo_fs (x_tolerance zenith_ex) foo_pdf)
          (candidates (companies_config zenith_ex))"
    by (simp add: zenith_ex_def zenith_profile_def candidates_def region_matches_def
        region_query_def text_at_def demo_region_def acme_region_text)
  show ?thesis
    using readable nomatch
      extract_metadata_gate [of demo_digest demo_ex demo_fs foo_pdf foo_entry
        "\<lparr>content = ''%PDF-foo'', pdf_pages = Some [acme_page ''Auto policy 2024'']\<rparr>"]
      extract_metadata_gate [of demo_digest zenith_ex demo_fs foo_pdf foo_entry
        "\<lparr>content = ''%PDF-foo'', pdf_pages = Some [acme_page ''Auto policy 2024'']\<rparr>"]
    by (simp add: demo_metadata demo_company demo_type foo_entry_def)
qed

subsection \<open>Company detection on the example\<close>

theorem detect_company_first_match_witness:
  "map_option fst
     (find (region_matches demo_fs (x_tolerance demo_ex) foo_pdf)
        (candidates (companies_config demo_ex))) = Some ''Acme''
   \<and> map (\<lambda>c. region_query foo_pdf (snd c))
       (examined (region_matches demo_fs (x_tolerance demo_ex) foo_pdf)
          (candidates (companies_config demo_ex)))
     = [(foo_pdf, 1, (0, 0, 200, 50)), (foo_pdf, 0, (0, 0, 200, 50)),
        (foo_pdf, 0, (0, 0, 200, 50))]
   \<and> length (candidates (companies_config demo_ex)) = 4"
  using detect_company_first_match [of demo_ex demo_fs foo_pdf] demo_company_log
  by (simp add: candidates_def demo_ex_def zenith_profile_def acme_profile_def)

theorem nonpositive_page_skipped_witness:
  "get_default 1 (c_page (demo_region\<lparr>c_page := Some 0\<rparr>)) \<le> 0
   \<and> extract_text_from_region demo_fs foo_pdf 0 0 200 50 (- 1) 1 = None
   \<and> py_index [acme_page ''Auto policy 2024''] (- 1) = Some (acme_page ''Auto policy 2024'')
   \<and> detect_company
       (demo_ex\<lparr>companies_config :=
          [acme_profile\<lparr>cc_coordinates :=
             Some [demo_region\<lparr>c_page := Some 0\<rparr>, demo_region]\<rparr>]\<rparr>) demo_fs foo_pdf
     = detect_company
         (demo_ex\<lparr>companies_config :=
            [acme_profile\<lparr>cc_coordinates := Some [demo_region]\<rparr>]\<rparr>) demo_fs foo_pdf"
proof -
  have h: "get_default 1 (c_page (demo_region\<lparr>c_page := Some 0\<rparr>)) \<le> 0"
    by simp
  show ?thesis
    using h nonpositive_page_skipped [OF h, where fs = demo_fs and p = foo_pdf and tol = 1
        and ex = demo_ex and pre = "[]" and cc = acme_profile and ?rs1.0 = "[]"
        and ?rs2.0 = "[demo_region]" and post = "[]"]
    by (simp add: demo_region_def py_index_def)
qed

subsection \<open>Insurance-type detection\<close>

lemma find_config_find: "find_config cfg nm = find (\<lambda>c. cc_company c = Some nm) cfg"
  by (induction cfg) simp_all

lemma match_representations_ex:
  "match_representations phrases text = list_ex (\<lambda>phrase. str_in phrase text) phrases"
  by (induction phrases) simp_all

lemma match_types_first: "match_types types text = first_type_matching types text"
  by (induction types) (auto simp: first_type_matching_def match_representations_ex)

lemma full_page_zero: "extract_full_page_text fs p 0 tol = first_page_text fs p tol"
  by (auto simp: extract_full_page_text_def first_page_text_def py_index_def
      split: sum.split list.split option.split)

text \<open>
  C4, as stated, fails for the empty company name: with a profile whose company name is
  the empty string and a phrase that occurs on the first page, the specification's words
  give the type, and \<^verbatim>\<open>detect_insurance_type\<close> returns \<open>None\<close> before any lookup.
\<close>

theorem empty_company_name_not_looked_up:
  "detect_insurance_type blank_ex demo_fs foo_pdf (Some []) = None
   \<and> insurance_type_as_claimed blank_ex demo_fs foo_pdf (Some []) = Some ''auto''"
  by (simp add: detect_insurance_type_def insurance_type_as_claimed_def blank_ex_def
      first_type_matching_def first_page_text_def open_pdf_def demo_fs_def acme_page_def)

text \<open>
  C4, amended. \<^verbatim>\<open>detect_insurance_type\<close> returns \<open>None\<close> at once when the company is
  none or the empty string; otherwise it takes the first profile of exactly that name
  (\<open>None\<close> if there is none), reads the text of the first page only, and returns the first
  type, in key order, one of whose phrases occurs in that text, \<open>None\<close> if no phrase does.
\<close>

theorem detect_insurance_type_first_phrase:
  "detect_insurance_type ex fs p company_name =
     (if company_name = Some [] then None
      else insurance_type_as_claimed ex fs p company_name)"
  by (cases company_name)
    (simp_all add: detect_insurance_type_def insurance_type_as_claimed_def find_config_find
      match_types_first full_page_zero Let_def split: option.split)

theorem detect_insurance_type_first_phrase_witness:
  "Some ''Acme'' \<noteq> Some []
   \<and> insurance_type_as_claimed demo_ex demo_fs bar_pdf (Some ''Acme'') = Some ''home''
   \<and> insurance_type_as_claimed demo_ex demo_fs bar_pdf None = None"
  using detect_insurance_type_first_phrase [of demo_ex demo_fs bar_pdf "Some ''Acme''"]
    detect_insurance_type_first_phrase [of demo_ex demo_fs bar_pdf None]
  by (simp add: demo_type)

subsection \<open>The metadata store\<close>

lemma dict_has_keys: "dict_has k xs = (k \<in> fst ` set xs)"
  by (induction xs) auto

lemma dict_del_lookup:
  "distinct (map fst xs) \<Longrightarrow> map_of (dict_del k xs) = (map_of xs)(k := None)"
proof (induction xs)
  case Nil
  show ?case by simp
next
  case (Cons kv xs)
  obtain k' v' where kv: "kv = (k', v')" by (cases kv)
  show ?case
  proof (cases "k' = k")
    case True
    with Cons.prems kv have "map_of xs k = None"
      by (simp add: map_of_eq_None_iff)
    with True kv show ?thesis by (auto intro!: ext)
  next
    case False
    with Cons kv show ?thesis by (auto intro!: ext)
  qed
qed

text \<open>
  C6, as stated, fails when the name is not in the store: with an index file left by an
  earlier run and an empty map, \<^verbatim>\<open>remove\<close> of an absent name calls \<^verbatim>\<open>save\<close> not once
  and the index file keeps its old content instead of the (empty) serialized map.
\<close>

theorem remove_absent_does_not_flush:
  "save_calls (remove ''foo'' stale_store) = save_calls stale_store
   \<and> meta_file (remove ''foo'' stale_store) = Some (serialize [(''bar.pdf'', bar_entry)])
   \<and> serialize (entries (remove ''foo'' stale_store)) = []
   \<and> meta_file (remove ''foo'' stale_store)
       \<noteq> Some (serialize (entries (remove ''foo'' stale_store)))"
  by (simp add: remove_def stale_store_def serialize_def entry_text_def)

text \<open>
  C6, amended. When the name is in the store, \<^verbatim>\<open>remove\<close> deletes the key and calls
  \<^verbatim>\<open>save\<close> once, which writes the whole remaining map to the index file if the file can
  be written; when the name is not in the store, \<^verbatim>\<open>remove\<close> changes neither the map
  nor the index file and does not call \<^verbatim>\<open>save\<close>. In both cases the name is absent
  afterwards and every other key keeps its entry.
\<close>

theorem remove_flushes_when_present:
  "(dict_has nm (entries m) \<longrightarrow>
      entries (remove nm m) = dict_del nm (entries m)
      \<and> save_calls (remove nm m) = Suc (save_calls m)
      \<and> (writable m \<longrightarrow>
            meta_file (remove nm m) = Some (serialize (dict_del nm (entries m)))))
   \<and> (\<not> dict_has nm (entries m) \<longrightarrow> remove nm m = m)
   \<and> (distinct (map fst (entries m)) \<longrightarrow>
        map_of (entries (remove nm m)) = (map_of (entries m))(nm := None))"
proof -
  have "distinct (map fst (entries m)) \<Longrightarrow> \<not> dict_has nm (entries m)
      \<Longrightarrow> map_of (entries m) = (map_of (entries m))(nm := None)"
    by (auto simp: dict_has_keys map_of_eq_None_iff intro!: ext)
  then show ?thesis
    by (simp add: remove_def save_def dict_del_lookup)
qed

theorem remove_flushes_when_present_witness:
  "dict_has ''foo.pdf'' (entries (add_or_update foo_entry False stale_store))
   \<and> writable (add_or_update foo_entry False stale_store)
   \<and> distinct (map fst (entries (add_or_update foo_entry False stale_store)))
   \<and> entries (remove ''foo.pdf'' (add_or_update foo_entry False stale_store)) = []
   \<and> meta_file (remove ''foo.pdf'' (add_or_update foo_entry False stale_store)) = Some []
   \<and> save_calls (remove ''foo.pdf'' (add_or_update foo_entry False stale_store)) = 1
   \<and> \<not> dict_has ''foo'' (entries (add_or_update foo_entry False stale_store))
   \<and> remove ''foo'' (add_or_update foo_entry False stale_store)
       = add_or_update foo_entry False stale_store"
  using remove_flushes_when_present [of "''foo.pdf''" "add_or_update foo_entry False stale_store"]
    remove_flushes_when_present [of "''foo''" "add_or_update foo_entry False stale_store"]
  by (simp add: add_or_update_def stale_store_def foo_entry_def serialize_def)

text \<open>
  C7. A second \<^verbatim>\<open>add_or_update\<close> of the same entry with immediate save leaves the index
  file, and the map, exactly as the first left them.
\<close>

theorem upsert_idempotent:
  "meta_file (add_or_update e True (add_or_update e True m))
     = meta_file (add_or_update e True m)
   \<and> entries (add_or_update e True (add_or_update e True m))
       = entries (add_or_update e True m)"
  by (simp add: add_or_update_def save_def dict_set_idem Let_def)

theorem upsert_idempotent_witness:
  "meta_file (add_or_update foo_entry True (add_or_update foo_entry True stale_store))
     = Some (serialize [(''foo.pdf'', foo_entry)])
   \<and> meta_file (add_or_update foo_entry True stale_store)
       = Some (serialize [(''foo.pdf'', foo_entry)])"
  using upsert_idempotent [of foo_entry stale_store]
  by (simp add: add_or_update_def save_def stale_store_def foo_entry_def Let_def)

subsection \<open>Events\<close>

text \<open>
  C2. On the fresh store, the create event for \<^verbatim>\<open>/inbox/foo.pdf\<close> writes one record
  to the index file, and the delete event for the same path leaves that record there:
  the entry is stored under \<^verbatim>\<open>foo.pdf\<close> and the removal asks for \<^verbatim>\<open>foo\<close>.
\<close>

theorem create_then_delete_keeps_record:
  "meta_file (on_deleted demo_dir foo_event
       (on_created demo_digest demo_ex demo_dir demo_fs foo_event fresh_store))
     = Some (serialize [(''foo.pdf'', foo_entry)])
   \<and> entries (on_deleted demo_dir foo_event
       (on_created demo_digest demo_ex demo_dir demo_fs foo_event fresh_store))
     = [(''foo.pdf'', foo_entry)]
   \<and> meta_file fresh_store = None
   \<and> entries fresh_store = []"
proof -
  have "meta_file fresh_store = None \<and> entries fresh_store = []"
    by (simp add: fresh_store_def)
  moreover have "on_deleted demo_dir foo_event
       (on_created demo_digest demo_ex demo_dir demo_fs foo_event fresh_store)
     = on_created demo_digest demo_ex demo_dir demo_fs foo_event fresh_store"
    unfolding foo_created
    by (simp add: on_deleted_def foo_event_fields foo_path remove_def Let_def)
  ultimately show ?thesis
    by (simp add: foo_created)
qed

theorem create_then_delete_keeps_record_witness:
  "is_directory foo_event = False
   \<and> is_pdf_in_root demo_dir (src_path foo_event)
   \<and> extract_metadata demo_digest demo_ex demo_fs (src_path foo_event) = Inr (Some foo_entry)
   \<and> dict_has (name foo_entry) [(''foo.pdf'', foo_entry)]
   \<and> dict_has (path_stem (src_path foo_event)) [(''foo.pdf'', foo_entry)] = False
   \<and> meta_file (on_deleted demo_dir foo_event
         (on_created demo_digest demo_ex demo_dir demo_fs foo_event fresh_store))
       = Some (''---'' @ newline @ ''foo.pdf'' @ newline @ ''sha:%PDF-foo'' @ newline
               @ ''Acme'' @ newline @ ''auto'' @ newline)"
  using create_then_delete_keeps_record
  by (simp add: foo_event_fields is_pdf_in_root_def foo_path demo_metadata serialize_def
      entry_text_def foo_entry_def)

subsection \<open>The startup pass\<close>

lemma fold_keeps_file:
  "meta_file (foldl (\<lambda>s e. add_or_update e False s) m es) = meta_file m
   \<and> save_calls (foldl (\<lambda>s e. add_or_update e False s) m es) = save_calls m
   \<and> writable (foldl (\<lambda>s e. add_or_update e False s) m es) = writable m"
  by (induction es arbitrary: m) (simp_all add: add_or_update_def)

lemma existing_loop_char:
  "existing_loop sha ex fs files m n =
     (foldl (\<lambda>s e. add_or_update e False s) m (classified sha ex fs files),
      n + length (classified sha ex fs files))"
  by (induction files arbitrary: m n) (simp_all split: sum.split option.split)

text \<open>
  C8. The startup pass upserts the entry of every file that classifies, in order and
  without saving, passes over every file that does not classify or that raises, and
  afterwards calls \<^verbatim>\<open>save\<close> exactly once if at least one entry was produced and not at
  all otherwise; until then the index file is untouched.
\<close>

theorem startup_pass_single_flush:
  "process_existing_pdfs sha ex fs wd listing m =
     (let es = classified sha ex fs (glob_star_pdf wd listing);
          m' = foldl (\<lambda>s e. add_or_update e False s) m es
      in if es = [] then m' else save m')
   \<and> meta_file (foldl (\<lambda>s e. add_or_update e False s) m
        (classified sha ex fs (glob_star_pdf wd listing))) = meta_file m
   \<and> save_calls (foldl (\<lambda>s e. add_or_update e False s) m
        (classified sha ex fs (glob_star_pdf wd listing))) = save_calls m
   \<and> save_calls (process_existing_pdfs sha ex fs wd listing m) =
       save_calls m + (if classified sha ex fs (glob_star_pdf wd listing) = [] then 0 else 1)"
  by (auto simp: process_existing_pdfs_def existing_loop_char fold_keeps_file Let_def save_def)

theorem startup_pass_single_flush_witness:
  "classified demo_digest demo_ex demo_fs (glob_star_pdf demo_dir demo_listing)
     = [foo_entry, bar_entry]
   \<and> process_existing_pdfs demo_digest demo_ex demo_fs demo_dir demo_listing stale_store
     = \<lparr>entries = [(''foo.pdf'', foo_entry), (''bar.pdf'', bar_entry)],
        meta_file = Some (serialize [(''foo.pdf'', foo_entry), (''bar.pdf'', bar_entry)]),
        writable = True, save_calls = 1\<rparr>
   \<and> process_existing_pdfs demo_digest zenith_ex demo_fs demo_dir [''foo.pdf''] stale_store
     = stale_store"
proof -
  have one: "glob_star_pdf demo_dir [''foo.pdf''] = [foo_pdf]"
    by (simp add: glob_star_pdf_def fnmatch_star_pdf_def path_join_def demo_dir_def
        foo_pdf_def)
  have names: "name foo_entry = ''foo.pdf''" "name bar_entry = ''bar.pdf''"
    by (simp_all add: foo_entry_def bar_entry_def)
  show ?thesis
    using startup_pass_single_flush [of demo_digest demo_ex demo_fs demo_dir demo_listing
        stale_store]
      startup_pass_single_flush [of demo_digest zenith_ex demo_fs demo_dir "[''foo.pdf'']"
        stale_store]
    by (simp add: demo_glob demo_metadata one names add_or_update_def save_def
        stale_store_def Let_def)
qed

subsection \<open>Extension case in the watch filter and in the startup pass\<close>

lemma rfind_absent: "c \<notin> set s \<Longrightarrow> rfind c s = -1"
  by (induction s) (auto simp: Let_def)

lemma rfind_last: "c \<notin> set post \<Longrightarrow> rfind c (pre @ c # post) = int (length pre)"
  by (induction pre) (simp_all add: Let_def rfind_absent)

lemma star_pdf_suffix:
  assumes "fnmatch_star_pdf n"
  shows "name_suffix n = [] \<or> name_suffix n = ''.pdf''"
proof -
  define pre where "pre = take (length n - 4) n"
  have n: "n = pre @ CHR ''.'' # ''pdf''"
    using assms append_take_drop_id [of "length n - 4" n]
    by (simp add: fnmatch_star_pdf_def pre_def)
  have "rfind CHR ''.'' n = int (length pre)"
    using rfind_last [of "CHR ''.''" "''pdf''" pre] by (simp add: n)
  then show ?thesis
    by (cases "pre = []") (simp_all add: name_suffix_def n)
qed

lemma upper_suffix_not_globbed:
  assumes "lower (name_suffix n) = ''.pdf''" and "name_suffix n \<noteq> ''.pdf''"
  shows "\<not> fnmatch_star_pdf n"
proof
  assume "fnmatch_star_pdf n"
  then have "name_suffix n = []"
    using star_pdf_suffix assms(2) by blast
  with assms(1) show False by (simp add: lower_def)
qed

lemma joined_name: "path_name (path_join d n) = n"
proof -
  have "last (parts d @ [n]) = n" by simp
  then show ?thesis
    by (cases "parts d @ [n]") (simp_all add: path_name_def path_join_def)
qed

lemma joined_parent: "path_parent (path_join d n) = d"
  by (simp add: path_parent_def path_join_def)

text \<open>
  C10. A file directly in the watched directory whose extension is \<^verbatim>\<open>.pdf\<close> in some
  other letter case passes \<^verbatim>\<open>_is_pdf_in_root\<close>, so its create and modify events are
  processed and its delete event removes by its stem; the pattern \<^verbatim>\<open>*.pdf\<close> of the
  startup pass does not match its name, so the pass runs as if the file were not there.
\<close>

theorem extension_case_watch_versus_startup:
  assumes "lower (name_suffix n) = ''.pdf''" and "name_suffix n \<noteq> ''.pdf''"
  shows "is_pdf_in_root wd (path_join wd n)
     \<and> on_created sha ex wd fs \<lparr>is_directory = False, src_path = path_join wd n\<rparr> m
         = process_pdf sha ex fs (path_join wd n) m
     \<and> on_modified sha ex wd fs \<lparr>is_directory = False, src_path = path_join wd n\<rparr> m
         = process_pdf sha ex fs (path_join wd n) m
     \<and> on_deleted wd \<lparr>is_directory = False, src_path = path_join wd n\<rparr> m
         = remove (name_stem n) m
     \<and> \<not> fnmatch_star_pdf n
     \<and> path_join wd n \<notin> set (glob_star_pdf wd (before @ n # after))
     \<and> process_existing_pdfs sha ex fs wd (before @ n # after) m
         = process_existing_pdfs sha ex fs wd (before @ after) m"
proof -
  have root: "is_pdf_in_root wd (path_join wd n)"
    using assms(1) by (simp add: is_pdf_in_root_def path_suffix_def joined_name joined_parent)
  have nog: "\<not> fnmatch_star_pdf n"
    using assms by (rule upper_suffix_not_globbed)
  have inj: "path_join wd a = path_join wd b \<Longrightarrow> a = b" for a b
    by (simp add: path_join_def)
  have notin: "path_join wd n \<notin> set (glob_star_pdf wd (before @ n # after))"
    using nog inj by (auto simp: glob_star_pdf_def)
  have same: "glob_star_pdf wd (before @ n # after) = glob_star_pdf wd (before @ after)"
    using nog by (simp add: glob_star_pdf_def)
  show ?thesis
    using root nog notin assms(1)
    by (simp add: on_created_def on_modified_def on_deleted_def process_existing_pdfs_def
        same path_suffix_def path_stem_def joined_name joined_parent Let_def)
qed

theorem extension_case_watch_versus_startup_witness:
  "lower (name_suffix ''SCAN.PDF'') = ''.pdf'' \<and> name_suffix ''SCAN.PDF'' \<noteq> ''.pdf''
   \<and> is_pdf_in_root demo_dir (path_join demo_dir ''SCAN.PDF'')
   \<and> \<not> fnmatch_star_pdf ''SCAN.PDF''
   \<and> process_existing_pdfs demo_digest demo_ex demo_fs demo_dir
         [''foo.pdf'', ''SCAN.PDF''] fresh_store
       = process_existing_pdfs demo_digest demo_ex demo_fs demo_dir [''foo.pdf''] fresh_store"
proof -
  have h1: "lower (name_suffix ''SCAN.PDF'') = ''.pdf''"
    by (simp add: name_suffix_def lower_def lower_char_def Let_def char_of_eq_iff)
  have h2: "name_suffix ''SCAN.PDF'' \<noteq> ''.pdf''"
    by (simp add: name_suffix_def Let_def)
  show ?thesis
    using h1 h2
      extension_case_watch_versus_startup [OF h1 h2, where wd = demo_dir
        and before = "[''foo.pdf'']" and after = "[]" and sha = demo_digest and ex = demo_ex
        and fs = demo_fs and m = fresh_store]
    by simp
qed

end
